theory Spec2Isabelle
  imports Main
begin

section \<open>The task scheduler of modules/task\_scheduler.py\<close>

text \<open>
  \<^verbatim>\<open>TaskScheduler\<close> wraps a \<^verbatim>\<open>schedule.Scheduler\<close> of the third-party package
  \<^verbatim>\<open>schedule\<close>. The package is imported by the repository, not part of it; the
  definitions of the subsection on the library model what the package does for the
  calls this program makes: \<^verbatim>\<open>every(n).<unit>.do(f)\<close>, \<^verbatim>\<open>every().day.at(t).do(f)\<close>,
  \<^verbatim>\<open>tag\<close>, \<^verbatim>\<open>clear\<close> and \<^verbatim>\<open>run_pending\<close>. The repository names no release of the
  package, and the releases differ in how \<^verbatim>\<open>Job._schedule_next_run\<close> computes the next run
  when the interval is not positive; both computations are modelled. A string is a list of code points below 256,
  which is what the type of characters holds. Calls of the logger are left out: they change
  nothing the scheduler reads.
\<close>

subsection \<open>Time\<close>

text \<open>
  A naive \<^verbatim>\<open>datetime\<close> is the number of microseconds since 0001-01-01 00:00:00;
  \<^verbatim>\<open>datetime.max\<close> is 9999-12-31 23:59:59.999999, day number 3652059.
\<close>

type_synonym datetime = int

definition us_per_second :: int where
  "us_per_second = 1000000"

definition us_per_day :: int where
  "us_per_day = 86400000000"

definition datetime_max :: datetime where
  "datetime_max = 3652059 * us_per_day - 1"

definition day_start :: "datetime \<Rightarrow> datetime" where
  "day_start t = t - t mod us_per_day"

definition time_of_day :: "datetime \<Rightarrow> int" where
  "time_of_day t = t mod us_per_day"

subsection \<open>Exceptions\<close>

text \<open>The exceptions that can reach the handlers of \<^verbatim>\<open>schedule_reminder\<close> and
  \<^verbatim>\<open>_run_loop\<close>. \<^verbatim>\<open>ScheduleValueError\<close> derives from \<^verbatim>\<open>Exception\<close>, not from
  \<^verbatim>\<open>ValueError\<close>. \<^verbatim>\<open>JobActionError\<close> stands for any \<^verbatim>\<open>Exception\<close> a job's action
  raises.\<close>

datatype pyexc = PyValueError | ScheduleValueError | OverflowError | JobActionError

text \<open>What \<^verbatim>\<open>schedule_reminder\<close> raises: the exception class and which of its
  messages.\<close>

datatype message =
    TaskNameEmpty
  | TriggerTimeEmpty
  | UnitNotRecognised string
  | TaskNotCallable
  | InvalidTimeFormat string string
  | ErrorSchedulingTask string pyexc

datatype error = ValueError message | TypeError message | RuntimeError message

subsection \<open>Python's \<^verbatim>\<open>int(str)\<close>\<close>

definition digit_of :: "char \<Rightarrow> nat option" where
  "digit_of = map_of
     [(CHR ''0'', 0), (CHR ''1'', 1), (CHR ''2'', 2), (CHR ''3'', 3), (CHR ''4'', 4),
      (CHR ''5'', 5), (CHR ''6'', 6), (CHR ''7'', 7), (CHR ''8'', 8), (CHR ''9'', 9)]"

definition py_isspace :: "char \<Rightarrow> bool" where
  "py_isspace c = (c \<in> set [CHR 0x09, CHR 0x0A, CHR 0x0B, CHR 0x0C, CHR 0x0D, CHR 0x20])"

definition strip :: "string \<Rightarrow> string" where
  "strip s = rev (dropWhile py_isspace (rev (dropWhile py_isspace s)))"

text \<open>Decimal digits, single underscores allowed between two digits only.\<close>

fun scan_digits :: "string \<Rightarrow> nat list option" where
  "scan_digits [] = None"
| "scan_digits [c] = map_option (\<lambda>d. [d]) (digit_of c)"
| "scan_digits (c # u # cs) =
     (case digit_of c of
        None \<Rightarrow> None
      | Some d \<Rightarrow>
          map_option ((#) d)
            (if u = CHR ''_'' then scan_digits cs else scan_digits (u # cs)))"

definition digits_value :: "nat list \<Rightarrow> int" where
  "digits_value ds = foldl (\<lambda>a d. 10 * a + int d) 0 ds"

text \<open>The interpreter's default limit on the digits of a decimal string
  (\<^verbatim>\<open>sys.get_int_max_str_digits()\<close>).\<close>

definition int_max_str_digits :: nat where
  "int_max_str_digits = 4300"

text \<open>Before it reads a string that is not ASCII, \<^verbatim>\<open>int\<close> turns its white space beyond
  ASCII into spaces: below 256 these are U+0085 and U+00A0. (The separators U+001C to U+001F
  are left as they are, and are no white space for \<^verbatim>\<open>int\<close>.)\<close>

definition ascii_spaces :: "string \<Rightarrow> string" where
  "ascii_spaces s = map (\<lambda>c. if c = CHR 0x85 \<or> c = CHR 0xA0 then CHR 0x20 else c) s"

text \<open>\<open>None\<close> is \<^verbatim>\<open>ValueError\<close>.\<close>

definition py_int :: "string \<Rightarrow> int option" where
  "py_int s =
     (case strip (ascii_spaces s) of
        [] \<Rightarrow> None
      | c # cs \<Rightarrow>
          (let neg = (c = CHR ''-'');
               body = (if c = CHR ''-'' \<or> c = CHR ''+'' then cs else c # cs)
           in case scan_digits body of
                None \<Rightarrow> None
              | Some ds \<Rightarrow>
                  if int_max_str_digits < length ds then None
                  else Some (if neg then - digits_value ds else digits_value ds)))"

subsection \<open>The library: jobs\<close>

text \<open>What a call of a job's action does: it returns (anything but \<^verbatim>\<open>CancelJob\<close>),
  returns \<^verbatim>\<open>CancelJob\<close>, or raises an \<^verbatim>\<open>Exception\<close>. An action reads and changes the
  world \<open>'w\<close> outside the scheduler.\<close>

datatype outcome = Returned | ReturnedCancelJob | Raised

type_synonym 'w action = "'w \<Rightarrow> outcome \<times> 'w"

text \<open>\<^verbatim>\<open>schedule.Job\<close>. \<open>job_id\<close> is the identity of the object; \<open>at_time\<close> is a time of
  day in microseconds.\<close>

record 'w Job =
  job_id :: nat
  interval :: int
  unit :: string
  at_time :: "int option"
  last_run :: "datetime option"
  next_run :: datetime
  tags :: "string set"
  job_func :: "'w action"

definition unit_us :: "string \<Rightarrow> int option" where
  "unit_us u =
     (if u = ''seconds'' then Some 1000000
      else if u = ''minutes'' then Some 60000000
      else if u = ''hours'' then Some 3600000000
      else if u = ''days'' then Some 86400000000
      else if u = ''weeks'' then Some 604800000000
      else None)"

text \<open>\<^verbatim>\<open>datetime.timedelta(**{unit: n})\<close>, in microseconds: the days of a timedelta
  are at most 999999999 in magnitude.\<close>

definition timedelta :: "int \<Rightarrow> int \<Rightarrow> pyexc + int" where
  "timedelta ul n =
     (let us = n * ul; d = us div us_per_day
      in if d < - 999999999 \<or> 999999999 < d then Inl OverflowError else Inr us)"

text \<open>\<^verbatim>\<open>datetime + timedelta\<close>.\<close>

definition dt_add :: "datetime \<Rightarrow> int \<Rightarrow> pyexc + datetime" where
  "dt_add t d = (if t + d < 0 \<or> datetime_max < t + d then Inl OverflowError else Inr (t + d))"

text \<open>\<^verbatim>\<open>Job.at\<close> for a job of unit days: the string matches
  \<^verbatim>\<open>^[0-2]\d:[0-5]\d(:[0-5]\d)?$\<close> (where \<^verbatim>\<open>$\<close> also matches before one final newline), and
  the hour is at most 23. The result is the time of day.\<close>

definition two_digits :: "nat \<Rightarrow> char \<Rightarrow> char \<Rightarrow> nat option" where
  "two_digits hi a b =
     (case (digit_of a, digit_of b) of
        (Some x, Some y) \<Rightarrow> if x \<le> hi then Some (10 * x + y) else None
      | _ \<Rightarrow> None)"

definition at_day :: "string \<Rightarrow> pyexc + int" where
  "at_day t =
     (let t' = (if t \<noteq> [] \<and> last t = CHR 0x0A then butlast t else t)
      in case t' of
           [h1, h2, c1, m1, m2] \<Rightarrow>
             (case (two_digits 2 h1 h2, two_digits 5 m1 m2) of
                (Some h, Some m) \<Rightarrow>
                  if c1 = CHR '':'' \<and> h \<le> 23
                  then Inr ((int h * 3600 + int m * 60) * us_per_second)
                  else Inl ScheduleValueError
              | _ \<Rightarrow> Inl ScheduleValueError)
         | [h1, h2, c1, m1, m2, c2, s1, s2] \<Rightarrow>
             (case (two_digits 2 h1 h2, two_digits 5 m1 m2, two_digits 5 s1 s2) of
                (Some h, Some m, Some sec) \<Rightarrow>
                  if c1 = CHR '':'' \<and> c2 = CHR '':'' \<and> h \<le> 23
                  then Inr ((int h * 3600 + int m * 60 + int sec) * us_per_second)
                  else Inl ScheduleValueError
              | _ \<Rightarrow> Inl ScheduleValueError)
         | _ \<Rightarrow> Inl ScheduleValueError)"

text \<open>\<^verbatim>\<open>Job._schedule_next_run\<close> at the time \<open>now\<close>, as the releases of the library up to
  1.2.1 compute it: the next run is one period from
  now (nothing tests that the interval is positive); a daily job with an \<open>at_time\<close> runs at that time of the day after, or of today
  when that time is still to come and the job has not run within the period. This
  program sets \<open>at_time\<close> on daily jobs only (\<^verbatim>\<open>every().day.at(t)\<close>); the library's
  alignment of hourly and minute jobs to an \<open>at_time\<close> is not modelled, and the model
  refuses such a job.\<close>

definition schedule_next_run :: "datetime \<Rightarrow> 'w Job \<Rightarrow> pyexc + 'w Job" where
  "schedule_next_run now j =
     (case unit_us (unit j) of
        None \<Rightarrow> Inl ScheduleValueError
      | Some ul \<Rightarrow>
          (case timedelta ul (interval j) of
             Inl e \<Rightarrow> Inl e
           | Inr period \<Rightarrow>
               (case dt_add now period of
                  Inl e \<Rightarrow> Inl e
                | Inr nr \<Rightarrow>
                    (case at_time j of
                       None \<Rightarrow> Inr (j\<lparr>next_run := nr\<rparr>)
                     | Some at \<Rightarrow>
                         if unit j \<noteq> ''days'' then Inl ScheduleValueError
                         else
                           (let nr' = day_start nr + at;
                                fresh = (case last_run j of
                                           None \<Rightarrow> True
                                         | Some lr \<Rightarrow> period < nr' - lr)
                            in if fresh \<and> time_of_day now < at \<and> interval j = 1
                               then Inr (j\<lparr>next_run := nr' - us_per_day\<rparr>)
                               else Inr (j\<lparr>next_run := nr'\<rparr>))))))"

text \<open>\<^verbatim>\<open>Job.should_run\<close>.\<close>

definition should_run :: "datetime \<Rightarrow> 'w Job \<Rightarrow> bool" where
  "should_run now j = (next_run j \<le> now)"

subsection \<open>The library: the next run in release 1.2.2\<close>

text \<open>Release 1.2.2 of the library computes the next run by a loop:
  \<^verbatim>\<open>while next_run <= now: next_run += period\<close>. With a period of zero the loop does not end
  (\<open>None\<close>); with a negative one it ends when the date leaves the range of \<^verbatim>\<open>datetime\<close>.\<close>

partial_function (option) advance_next_run ::
    "datetime \<Rightarrow> int \<Rightarrow> datetime \<Rightarrow> (pyexc + datetime) option" where
  "advance_next_run now period nr =
     (if nr \<le> now
      then (case dt_add nr period of
              Inl e \<Rightarrow> Some (Inl e)
            | Inr nr' \<Rightarrow> advance_next_run now period nr')
      else Some (Inr nr))"

text \<open>\<^verbatim>\<open>Job._schedule_next_run\<close> of release 1.2.2: the start is \<open>now\<close>, moved to the \<open>at_time\<close>
  of a daily job; one period is added unless the interval is 1; then the loop. As above, an
  \<open>at_time\<close> is modelled for daily jobs only. For a positive interval and no \<open>at_time\<close> the
  result is that of \<open>schedule_next_run\<close> (\<open>loop_positive\<close> below).\<close>

definition schedule_next_run_loop :: "datetime \<Rightarrow> 'w Job \<Rightarrow> (pyexc + 'w Job) option" where
  "schedule_next_run_loop now j =
     (case unit_us (unit j) of
        None \<Rightarrow> Some (Inl ScheduleValueError)
      | Some ul \<Rightarrow>
          (case (case at_time j of
                   None \<Rightarrow> Inr now
                 | Some at \<Rightarrow>
                     if unit j \<noteq> ''days'' then Inl ScheduleValueError
                     else Inr (day_start now + at)) of
             Inl e \<Rightarrow> Some (Inl e)
           | Inr moved \<Rightarrow>
               (case timedelta ul (interval j) of
                  Inl e \<Rightarrow> Some (Inl e)
                | Inr period \<Rightarrow>
                    (case (if interval j \<noteq> 1 then dt_add moved period else Inr moved) of
                       Inl e \<Rightarrow> Some (Inl e)
                     | Inr nr \<Rightarrow>
                         (case advance_next_run now period nr of
                            None \<Rightarrow> None
                          | Some (Inl e) \<Rightarrow> Some (Inl e)
                          | Some (Inr t) \<Rightarrow> Some (Inr (j\<lparr>next_run := t\<rparr>)))))))"

subsection \<open>The scheduler and its surroundings\<close>

text \<open>The fields of \<^verbatim>\<open>TaskScheduler\<close> (\<open>jobs\<close> is \<^verbatim>\<open>self.scheduler.jobs\<close>) and what
  they act on: the clock, the world of the actions, the loop threads that are alive
  (thread identity and the \<^verbatim>\<open>interval\<close> argument of its \<^verbatim>\<open>_run_loop\<close>) and the number
  of \<^verbatim>\<open>atexit\<close> registrations of \<^verbatim>\<open>self.stop\<close>.\<close>

record 'w state =
  jobs :: "'w Job list"
  scheduler_thread :: "nat option"
  is_running :: bool
  clock :: datetime
  world :: 'w
  threads :: "(nat \<times> int) list"
  atexit_hooks :: nat

text \<open>\<^verbatim>\<open>TaskScheduler.__init__\<close>, at a given time and world.\<close>

definition init :: "datetime \<Rightarrow> 'w \<Rightarrow> 'w state" where
  "init now w =
     \<lparr>jobs = [], scheduler_thread = None, is_running = False, clock = now, world = w,
      threads = [], atexit_hooks = 0\<rparr>"

text \<open>The identity of a new object differs from those of the jobs in the list.\<close>

definition fresh_id :: "'w Job list \<Rightarrow> nat" where
  "fresh_id js = Suc (fold max (map job_id js) 0)"

text \<open>\<^verbatim>\<open>Scheduler.every(n)\<close> followed by the unit property and, for a daily job,
  \<^verbatim>\<open>at\<close>: a job that is not yet in the list.\<close>

definition every :: "int \<Rightarrow> string \<Rightarrow> int option \<Rightarrow> 'w state \<Rightarrow> 'w Job" where
  "every n u at s =
     \<lparr>job_id = fresh_id (jobs s), interval = n, unit = u, at_time = at, last_run = None,
      next_run = 0, tags = {}, job_func = (\<lambda>w. (Returned, w))\<rparr>"

text \<open>\<^verbatim>\<open>Job.do\<close>: the next run is computed, then the job is appended.\<close>

definition do_job :: "'w action \<Rightarrow> 'w Job \<Rightarrow> 'w state \<Rightarrow> (pyexc + 'w Job) \<times> 'w state" where
  "do_job f j s =
     (case schedule_next_run (clock s) (j\<lparr>job_func := f\<rparr>) of
        Inl e \<Rightarrow> (Inl e, s)
      | Inr j' \<Rightarrow> (Inr j', s\<lparr>jobs := jobs s @ [j']\<rparr>))"

text \<open>\<^verbatim>\<open>Job.do\<close> with the library's computation of the next run as the parameter \<open>lib\<close>;
  \<open>None\<close> when that computation does not return.\<close>

definition do_job_with ::
    "(datetime \<Rightarrow> 'w Job \<Rightarrow> (pyexc + 'w Job) option) \<Rightarrow> 'w action \<Rightarrow> 'w Job \<Rightarrow> 'w state \<Rightarrow>
       ((pyexc + 'w Job) \<times> 'w state) option" where
  "do_job_with lib f j s =
     (case lib (clock s) (j\<lparr>job_func := f\<rparr>) of
        None \<Rightarrow> None
      | Some (Inl e) \<Rightarrow> Some (Inl e, s)
      | Some (Inr j') \<Rightarrow> Some (Inr j', s\<lparr>jobs := jobs s @ [j']\<rparr>))"

text \<open>An object of the list is changed in place.\<close>

definition update_job :: "nat \<Rightarrow> ('w Job \<Rightarrow> 'w Job) \<Rightarrow> 'w Job list \<Rightarrow> 'w Job list" where
  "update_job i f js = map (\<lambda>k. if job_id k = i then f k else k) js"

text \<open>\<^verbatim>\<open>Job.tag\<close>.\<close>

definition tag :: "string \<Rightarrow> 'w Job \<Rightarrow> 'w state \<Rightarrow> 'w Job \<times> 'w state" where
  "tag t j s =
     (j\<lparr>tags := insert t (tags j)\<rparr>,
      s\<lparr>jobs := update_job (job_id j) (\<lambda>k. k\<lparr>tags := insert t (tags k)\<rparr>) (jobs s)\<rparr>)"

text \<open>\<^verbatim>\<open>Scheduler.clear\<close>.\<close>

definition clear :: "string option \<Rightarrow> 'w state \<Rightarrow> 'w state" where
  "clear tg s =
     (case tg of
        None \<Rightarrow> s\<lparr>jobs := []\<rparr>
      | Some t \<Rightarrow> s\<lparr>jobs := filter (\<lambda>j. t \<notin> tags j) (jobs s)\<rparr>)"

text \<open>\<^verbatim>\<open>Scheduler._run_job\<close> with \<^verbatim>\<open>Job.run\<close>: the action is called; an exception of the
  action leaves the job as it was and propagates; otherwise the job records the run
  and its next run, and leaves the list when the action returned \<^verbatim>\<open>CancelJob\<close>.\<close>

definition run_job :: "'w Job \<Rightarrow> 'w state \<Rightarrow> pyexc option \<times> 'w state" where
  "run_job j s =
     (let (ret, w) = job_func j (world s)
      in if ret = Raised then (Some JobActionError, s\<lparr>world := w\<rparr>)
         else
           (let j1 = j\<lparr>last_run := Some (clock s)\<rparr>
            in case schedule_next_run (clock s) j1 of
                 Inl e \<Rightarrow>
                   (Some e, s\<lparr>world := w, jobs := update_job (job_id j) (\<lambda>k. j1) (jobs s)\<rparr>)
               | Inr j2 \<Rightarrow>
                   (None,
                    s\<lparr>world := w,
                      jobs := (if ret = ReturnedCancelJob
                               then filter (\<lambda>k. job_id k \<noteq> job_id j) (jobs s)
                               else update_job (job_id j) (\<lambda>k. j2) (jobs s))\<rparr>)))"

fun run_jobs :: "'w Job list \<Rightarrow> 'w state \<Rightarrow> pyexc option \<times> 'w state" where
  "run_jobs [] s = (None, s)"
| "run_jobs (j # js) s =
     (case run_job j s of
        (Some e, s') \<Rightarrow> (Some e, s')
      | (None, s') \<Rightarrow> run_jobs js s')"

text \<open>\<^verbatim>\<open>Scheduler.run_pending\<close>: the jobs that should run, in the order of their next
  run (\<^verbatim>\<open>sorted\<close> is stable), one after the other. The library catches nothing.\<close>

definition run_pending :: "'w state \<Rightarrow> pyexc option \<times> 'w state" where
  "run_pending s = run_jobs (sort_key next_run (filter (should_run (clock s)) (jobs s))) s"

text \<open>\<^verbatim>\<open>time.sleep\<close>: a negative argument is a \<^verbatim>\<open>ValueError\<close>.\<close>

definition sleep :: "int \<Rightarrow> 'w state \<Rightarrow> pyexc option \<times> 'w state" where
  "sleep secs s =
     (if secs < 0 then (Some PyValueError, s)
      else (None, s\<lparr>clock := clock s + secs * us_per_second\<rparr>))"

subsection \<open>\<^verbatim>\<open>TaskScheduler\<close>\<close>

text \<open>The \<^verbatim>\<open>task\<close> argument: \<^verbatim>\<open>None\<close>, a callable, or anything else.\<close>

datatype 'w task_arg = NoTask | Callable "'w action" | NotCallable

text \<open>The default task logs the reminder.\<close>

definition default_task :: "'w action" where
  "default_task = (\<lambda>w. (Returned, w))"

text \<open>\<^verbatim>\<open>schedule_reminder(task_name, trigger_time, task, unit)\<close>. The two arguments are
  strings by their type here, so the \<^verbatim>\<open>isinstance\<close> tests hold.\<close>

definition schedule_reminder ::
    "string \<Rightarrow> string \<Rightarrow> 'w task_arg \<Rightarrow> string \<Rightarrow> 'w state \<Rightarrow> (error + 'w Job) \<times> 'w state" where
  "schedule_reminder task_name trigger_time task unit_name s =
     (if task_name = [] then (Inl (ValueError TaskNameEmpty), s)
      else if trigger_time = [] then (Inl (ValueError TriggerTimeEmpty), s)
      else if unit_name \<notin> set [''days'', ''hours'', ''minutes'', ''seconds'']
        then (Inl (ValueError (UnitNotRecognised unit_name)), s)
      else
        (case task of
           NotCallable \<Rightarrow> (Inl (TypeError TaskNotCallable), s)
         | _ \<Rightarrow>
           (let f = (case task of Callable g \<Rightarrow> g | _ \<Rightarrow> default_task);
                r = (if unit_name = ''days''
                     then (case at_day trigger_time of
                             Inl e \<Rightarrow> (Inl e, s)
                           | Inr at \<Rightarrow> do_job f (every 1 ''days'' (Some at) s) s)
                     else (case py_int trigger_time of
                             None \<Rightarrow> (Inl PyValueError, s)
                           | Some n \<Rightarrow> do_job f (every n unit_name None s) s))
            in case r of
                 (Inl e, s') \<Rightarrow>
                   if e = PyValueError
                   then (Inl (ValueError (InvalidTimeFormat trigger_time unit_name)), s')
                   else (Inl (RuntimeError (ErrorSchedulingTask task_name e)), s')
               | (Inr job, s') \<Rightarrow>
                   (case tag task_name job s' of (job', s'') \<Rightarrow> (Inr job', s'')))))"

text \<open>\<^verbatim>\<open>schedule_reminder\<close> once more, line by line the same, with the library's computation
  of the next run as the parameter \<open>lib\<close>: \<open>None\<close> when the call does not return. With the
  computation of the releases up to 1.2.1 it is \<open>schedule_reminder\<close>
  (\<open>schedule_reminder_with_classic\<close> below).\<close>

definition schedule_reminder_with ::
    "(datetime \<Rightarrow> 'w Job \<Rightarrow> (pyexc + 'w Job) option) \<Rightarrow>
       string \<Rightarrow> string \<Rightarrow> 'w task_arg \<Rightarrow> string \<Rightarrow> 'w state \<Rightarrow>
       ((error + 'w Job) \<times> 'w state) option" where
  "schedule_reminder_with lib task_name trigger_time task unit_name s =
     (if task_name = [] then Some (Inl (ValueError TaskNameEmpty), s)
      else if trigger_time = [] then Some (Inl (ValueError TriggerTimeEmpty), s)
      else if unit_name \<notin> set [''days'', ''hours'', ''minutes'', ''seconds'']
        then Some (Inl (ValueError (UnitNotRecognised unit_name)), s)
      else
        (case task of
           NotCallable \<Rightarrow> Some (Inl (TypeError TaskNotCallable), s)
         | _ \<Rightarrow>
           (let f = (case task of Callable g \<Rightarrow> g | _ \<Rightarrow> default_task);
                r = (if unit_name = ''days''
                     then (case at_day trigger_time of
                             Inl e \<Rightarrow> Some (Inl e, s)
                           | Inr at \<Rightarrow> do_job_with lib f (every 1 ''days'' (Some at) s) s)
                     else (case py_int trigger_time of
                             None \<Rightarrow> Some (Inl PyValueError, s)
                           | Some n \<Rightarrow> do_job_with lib f (every n unit_name None s) s))
            in case r of
                 None \<Rightarrow> None
               | Some (Inl e, s') \<Rightarrow>
                   if e = PyValueError
                   then Some (Inl (ValueError (InvalidTimeFormat trigger_time unit_name)), s')
                   else Some (Inl (RuntimeError (ErrorSchedulingTask task_name e)), s')
               | Some (Inr job, s') \<Rightarrow>
                   (case tag task_name job s' of (job', s'') \<Rightarrow> Some (Inr job', s'')))))"

text \<open>What \<^verbatim>\<open>get_pending_tasks\<close> returns is a list of Python values: \<^verbatim>\<open>job.tags\<close> is a
  set of strings.\<close>

datatype pyval = PyStr string | PySet "string set"

definition get_pending_tasks :: "'w state \<Rightarrow> pyval list" where
  "get_pending_tasks s = map (\<lambda>job. PySet (tags job)) (jobs s)"

definition remove_task :: "string \<Rightarrow> 'w state \<Rightarrow> bool \<times> 'w state" where
  "remove_task task_name s =
     (let initial_count = length (jobs s);
          s' = clear (Some task_name) s;
          removed = (length (jobs s') < initial_count)
      in (removed, s'))"

definition clear_all :: "'w state \<Rightarrow> 'w state" where
  "clear_all s = clear None s"

text \<open>One pass of the body of the loop of \<^verbatim>\<open>_run_loop\<close>.\<close>

definition loop_body :: "int \<Rightarrow> 'w state \<Rightarrow> pyexc option \<times> 'w state" where
  "loop_body poll_interval s =
     (case run_pending s of
        (Some e, s') \<Rightarrow> (Some e, s')
      | (None, s') \<Rightarrow> sleep poll_interval s')"

text \<open>\<^verbatim>\<open>_run_loop\<close> on the thread that calls it, nothing else running: \<open>None\<close> when the
  loop is still going after \<open>fuel\<close> passes. The handler around the loop catches every
  \<^verbatim>\<open>Exception\<close> and clears \<open>is_running\<close>.\<close>

fun run_loop :: "nat \<Rightarrow> int \<Rightarrow> 'w state \<Rightarrow> 'w state option" where
  "run_loop 0 poll_interval s = (if is_running s then None else Some s)"
| "run_loop (Suc fuel) poll_interval s =
     (if \<not> is_running s then Some s
      else (case loop_body poll_interval s of
              (Some e, s') \<Rightarrow> Some (s'\<lparr>is_running := False\<rparr>)
            | (None, s') \<Rightarrow> run_loop fuel poll_interval s'))"

text \<open>One pass of the loop on the background thread \<open>tid\<close>: the thread ends when it
  finds \<open>is_running\<close> cleared, or in the handler.\<close>

definition thread_step :: "nat \<Rightarrow> 'w state \<Rightarrow> 'w state" where
  "thread_step tid s =
     (case map_of (threads s) tid of
        None \<Rightarrow> s
      | Some poll_interval \<Rightarrow>
          if \<not> is_running s then s\<lparr>threads := filter (\<lambda>t. fst t \<noteq> tid) (threads s)\<rparr>
          else (case loop_body poll_interval s of
                  (Some e, s') \<Rightarrow>
                    s'\<lparr>is_running := False,
                       threads := filter (\<lambda>t. fst t \<noteq> tid) (threads s')\<rparr>
                | (None, s') \<Rightarrow> s'))"

definition fresh_tid :: "(nat \<times> int) list \<Rightarrow> nat" where
  "fresh_tid ts = Suc (fold max (map fst ts) 0)"

text \<open>\<^verbatim>\<open>run(background, interval)\<close>. In the foreground the call returns when the loop
  does (\<open>None\<close>: not within \<open>fuel\<close> passes).\<close>

definition run :: "nat \<Rightarrow> bool \<Rightarrow> int \<Rightarrow> 'w state \<Rightarrow> 'w state option" where
  "run fuel background poll_interval s =
     (if is_running s then Some s
      else
        (let s1 = s\<lparr>is_running := True\<rparr>
         in if background
            then (let tid = fresh_tid (threads s1)
                  in Some (s1\<lparr>scheduler_thread := Some tid,
                              threads := threads s1 @ [(tid, poll_interval)],
                              atexit_hooks := Suc (atexit_hooks s1)\<rparr>))
            else map_option (\<lambda>s2. s2\<lparr>atexit_hooks := Suc (atexit_hooks s2)\<rparr>)
                   (run_loop fuel poll_interval s1)))"

text \<open>\<^verbatim>\<open>stop\<close>. The \<^verbatim>\<open>join\<close> of the thread only waits, for five seconds at most: the
  thread goes on by \<open>thread_step\<close>.\<close>

definition stop :: "'w state \<Rightarrow> 'w state" where
  "stop s = (if \<not> is_running s then s else s\<lparr>is_running := False\<rparr>)"

text \<open>The callable a registration stores.\<close>

definition task_func :: "'w task_arg \<Rightarrow> 'w action" where
  "task_func task = (case task of Callable g \<Rightarrow> g | _ \<Rightarrow> default_task)"

subsection \<open>Examples\<close>

text \<open>2026-01-01 00:00:00.\<close>

definition example_now :: datetime where
  "example_now = 63902822400000000"

text \<open>A new scheduler, its world a counter.\<close>

definition example_init :: "nat state" where
  "example_init = init example_now 0"

text \<open>The job that \<^verbatim>\<open>schedule_reminder(name, "5", unit="hours")\<close> makes at that time.\<close>

definition example_job :: "nat \<Rightarrow> string \<Rightarrow> nat Job" where
  "example_job i name =
     \<lparr>job_id = i, interval = 5, unit = ''hours'', at_time = None, last_run = None,
      next_run = example_now + 18000000000, tags = {name}, job_func = default_task\<rparr>"

text \<open>The scheduler after the registrations of \<^verbatim>\<open>a\<close>, \<^verbatim>\<open>b\<close> and \<^verbatim>\<open>a\<close> again.\<close>

definition example_registry :: "nat state" where
  "example_registry =
     example_init\<lparr>jobs := [example_job 1 ''a'', example_job 2 ''b'', example_job 3 ''a'']\<rparr>"

subsection \<open>The valid pairs of the specification\<close>

text \<open>The specification's well-formed time of day: \<^verbatim>\<open>HH:MM\<close>, the hour from 00 to 23 and
  the minute from 00 to 59.\<close>

definition valid_hhmm :: "string \<Rightarrow> bool" where
  "valid_hhmm t =
     (case t of
        [h1, h2, c, m1, m2] \<Rightarrow>
          (case (digit_of h1, digit_of h2, digit_of m1, digit_of m2) of
             (Some a, Some b, Some x, Some y) \<Rightarrow>
               c = CHR '':'' \<and> 10 * a + b \<le> 23 \<and> 10 * x + y \<le> 59
           | _ \<Rightarrow> False)
      | _ \<Rightarrow> False)"

text \<open>The period of a valid pair of the specification, in microseconds: a day for the unit
  days with a well-formed time of day, \<open>n\<close> units for hours, minutes and seconds with a
  trigger time that is the positive integer \<open>n\<close>; \<open>None\<close> for a pair that is not valid.\<close>

definition cadence_period :: "string \<Rightarrow> string \<Rightarrow> int option" where
  "cadence_period unit_name trigger_time =
     (if unit_name = ''days''
      then (if valid_hhmm trigger_time then Some us_per_day else None)
      else if unit_name \<in> set [''hours'', ''minutes'', ''seconds'']
      then (case py_int trigger_time of
              None \<Rightarrow> None
            | Some n \<Rightarrow> if 0 < n then map_option (\<lambda>ul. n * ul) (unit_us unit_name) else None)
      else None)"

subsection \<open>A scheduler with a failing job\<close>

definition always_raises :: "nat action" where
  "always_raises w = (Raised, w)"

text \<open>The job of \<^verbatim>\<open>schedule_reminder("bad", "1", task, "seconds")\<close> for that task.\<close>

definition failing_job :: "nat Job" where
  "failing_job =
     \<lparr>job_id = 1, interval = 1, unit = ''seconds'', at_time = None, last_run = None,
      next_run = example_now + 1000000, tags = {''bad''}, job_func = always_raises\<rparr>"

text \<open>The scheduler one minute later: \<^verbatim>\<open>run(background=True, interval=60)\<close> was called and
  the loop has made its first pass, in which nothing was due.\<close>

definition example_running :: "nat state" where
  "example_running =
     \<lparr>jobs = [failing_job], scheduler_thread = Some 1, is_running = True,
      clock = example_now + 60000000, world = 0, threads = [(1, 60)], atexit_hooks = 1\<rparr>"

section \<open>Properties\<close>

subsection \<open>Auxiliary facts\<close>

lemma fold_max_ge: "a \<le> fold max xs (a::nat)"
  by (induction xs arbitrary: a) (auto intro: order_trans [OF max.cobounded2])

lemma fold_max_mem: "x \<in> set xs \<Longrightarrow> x \<le> fold max xs (a::nat)"
proof (induction xs arbitrary: a)
  case Nil
  then show ?case by simp
next
  case (Cons y ys)
  show ?case
  proof (cases "x = y")
    case True
    have "max y a \<le> fold max ys (max y a)" by (rule fold_max_ge)
    with True show ?thesis by simp
  next
    case False
    with Cons show ?thesis by simp
  qed
qed

lemma fresh_id_new: "k \<in> set js \<Longrightarrow> job_id k \<noteq> fresh_id js"
proof -
  assume "k \<in> set js"
  then have "job_id k \<in> set (map job_id js)" by simp
  then have "job_id k \<le> fold max (map job_id js) 0" by (rule fold_max_mem)
  then show ?thesis by (simp add: fresh_id_def)
qed

lemma update_job_fresh:
  "\<forall>k\<in>set js. job_id k \<noteq> i \<Longrightarrow> update_job i f js = js"
  by (induction js) (auto simp: update_job_def)

lemma job_id_schedule_next_run:
  "schedule_next_run now j = Inr j' \<Longrightarrow> job_id j' = job_id j \<and> tags j' = tags j"
  by (auto simp: schedule_next_run_def Let_def split: option.splits sum.splits if_splits)

lemma do_job_Inr:
  assumes "do_job f j s = (Inr j', s')"
  shows "schedule_next_run (clock s) (j\<lparr>job_func := f\<rparr>) = Inr j' \<and> s' = s\<lparr>jobs := jobs s @ [j']\<rparr>"
  using assms by (auto simp: do_job_def split: sum.splits)

lemma do_job_Inl: "do_job f j s = (Inl e, s') \<Longrightarrow> s' = s"
  by (auto simp: do_job_def split: sum.splits)

lemma tag_fresh:
  assumes "job_id j = fresh_id js" and "jobs s = js @ [j]"
  shows "tag t j s = (j\<lparr>tags := insert t (tags j)\<rparr>, s\<lparr>jobs := js @ [j\<lparr>tags := insert t (tags j)\<rparr>]\<rparr>)"
proof -
  have "\<forall>k\<in>set js. job_id k \<noteq> job_id j" using assms(1) fresh_id_new by metis
  then have "update_job (job_id j) (\<lambda>k. k\<lparr>tags := insert t (tags k)\<rparr>) js = js"
    by (rule update_job_fresh)
  then show ?thesis using assms(2) by (simp add: tag_def update_job_def)
qed

lemma every_simps:
  "job_id (every n u at s) = fresh_id (jobs s)" "tags (every n u at s) = {}"
  "interval (every n u at s) = n" "unit (every n u at s) = u" "at_time (every n u at s) = at"
  "last_run (every n u at s) = None"
  by (simp_all add: every_def)

lemma do_every_Inr:
  assumes "do_job f (every n u at s) s = (Inr j0, s0)"
  shows "tag t j0 s0 = (j0\<lparr>tags := {t}\<rparr>, s\<lparr>jobs := jobs s @ [j0\<lparr>tags := {t}\<rparr>]\<rparr>)"
proof -
  from do_job_Inr [OF assms]
  have nr: "schedule_next_run (clock s) ((every n u at s)\<lparr>job_func := f\<rparr>) = Inr j0"
    and s0: "s0 = s\<lparr>jobs := jobs s @ [j0]\<rparr>" by simp_all
  from job_id_schedule_next_run [OF nr]
  have id: "job_id j0 = fresh_id (jobs s)" and tg: "tags j0 = {}"
    by (simp_all add: every_simps)
  have "jobs s0 = jobs s @ [j0]" using s0 by simp
  from tag_fresh [OF id this, of t] show ?thesis using tg s0 by simp
qed

lemma schedule_reminder_Inr:
  assumes "schedule_reminder task_name trigger_time task unit_name s = (Inr job, s')"
  shows "s' = s\<lparr>jobs := jobs s @ [job]\<rparr> \<and> tags job = {task_name} \<and> job_id job = fresh_id (jobs s)"
proof (cases "unit_name = ''days''")
  case True
  from assms True obtain f at j0 s0 where
    d: "do_job f (every 1 ''days'' (Some at) s) s = (Inr j0, s0)"
    and t: "tag task_name j0 s0 = (job, s')"
    by (auto simp: schedule_reminder_def Let_def split: if_splits task_arg.splits sum.splits prod.splits)
  from do_every_Inr [OF d, of task_name] t
  have "job = j0\<lparr>tags := {task_name}\<rparr>" and "s' = s\<lparr>jobs := jobs s @ [j0\<lparr>tags := {task_name}\<rparr>]\<rparr>"
    by simp_all
  moreover have "job_id j0 = fresh_id (jobs s)"
    using do_job_Inr [OF d] job_id_schedule_next_run by (fastforce simp: every_simps)
  ultimately show ?thesis by simp
next
  case False
  from assms False obtain f n j0 s0 where
    d: "do_job f (every n unit_name None s) s = (Inr j0, s0)"
    and t: "tag task_name j0 s0 = (job, s')"
    by (auto simp: schedule_reminder_def Let_def split: if_splits task_arg.splits sum.splits prod.splits option.splits)
  from do_every_Inr [OF d, of task_name] t
  have "job = j0\<lparr>tags := {task_name}\<rparr>" and "s' = s\<lparr>jobs := jobs s @ [j0\<lparr>tags := {task_name}\<rparr>]\<rparr>"
    by simp_all
  moreover have "job_id j0 = fresh_id (jobs s)"
    using do_job_Inr [OF d] job_id_schedule_next_run by (fastforce simp: every_simps)
  ultimately show ?thesis by simp
qed

lemma schedule_reminder_Inl:
  assumes "schedule_reminder task_name trigger_time task unit_name s = (Inl e, s')"
  shows "s' = s"
  using assms
  by (auto simp: schedule_reminder_def Let_def
      split: if_splits task_arg.splits sum.splits prod.splits option.splits dest: do_job_Inl)

lemma py_int_5: "py_int ''5'' = Some 5"
  by (simp add: py_int_def ascii_spaces_def strip_def py_isspace_def digit_of_def digits_value_def
      int_max_str_digits_def)

lemma py_int_0: "py_int ''0'' = Some 0"
  by (simp add: py_int_def ascii_spaces_def strip_def py_isspace_def digit_of_def digits_value_def
      int_max_str_digits_def)

lemma py_int_x: "py_int ''soon'' = None"
  by (simp add: py_int_def ascii_spaces_def strip_def py_isspace_def digit_of_def digits_value_def
      int_max_str_digits_def)

lemma timedelta_ok:
  assumes "0 \<le> n * ul" and "n * ul \<le> datetime_max"
  shows "timedelta ul n = Inr (n * ul)"
proof -
  have "0 \<le> (n * ul) div us_per_day"
    using assms(1) by (simp add: us_per_day_def pos_imp_zdiv_nonneg_iff)
  moreover have "(n * ul) div us_per_day \<le> datetime_max div us_per_day"
    using assms(2) by (intro zdiv_mono1) (simp_all add: us_per_day_def)
  moreover have "datetime_max div us_per_day = 3652058"
    by (simp add: datetime_max_def us_per_day_def)
  ultimately show ?thesis by (simp add: timedelta_def Let_def)
qed

lemma schedule_interval_ok:
  assumes t: "py_int t = Some n" and u: "u \<in> {''hours'', ''minutes'', ''seconds''}"
    and ul: "unit_us u = Some ul" and n: "0 \<le> n * ul" and c: "0 \<le> clock s"
    and r: "clock s + n * ul \<le> datetime_max"
    and nm: "name \<noteq> []" and cl: "task \<noteq> NotCallable"
  shows "schedule_reminder name t task u s =
    (Inr \<lparr>job_id = fresh_id (jobs s), interval = n, unit = u, at_time = None,
          last_run = None, next_run = clock s + n * ul, tags = {name},
          job_func = task_func task\<rparr>,
     s\<lparr>jobs := jobs s @
        [\<lparr>job_id = fresh_id (jobs s), interval = n, unit = u, at_time = None,
          last_run = None, next_run = clock s + n * ul, tags = {name},
          job_func = task_func task\<rparr>]\<rparr>)"
proof -
  have tne: "t \<noteq> []" using t by (auto simp: py_int_def ascii_spaces_def strip_def)
  have "n * ul \<le> datetime_max" using c r by simp
  with n have td: "timedelta ul n = Inr (n * ul)" by (rule timedelta_ok)
  have ad: "dt_add (clock s) (n * ul) = Inr (clock s + n * ul)"
    using n c r by (simp add: dt_add_def)
  have d: "do_job (task_func task) (every n u None s) s =
     (Inr \<lparr>job_id = fresh_id (jobs s), interval = n, unit = u, at_time = None,
          last_run = None, next_run = clock s + n * ul, tags = {},
          job_func = task_func task\<rparr>,
      s\<lparr>jobs := jobs s @ [\<lparr>job_id = fresh_id (jobs s), interval = n, unit = u, at_time = None,
          last_run = None, next_run = clock s + n * ul, tags = {},
          job_func = task_func task\<rparr>]\<rparr>)"
    by (simp add: do_job_def schedule_next_run_def ul td ad every_def)
  have nd: "u \<noteq> ''days''" using u by auto
  have us: "u \<in> set [''days'', ''hours'', ''minutes'', ''seconds'']" using u by auto
  from d do_every_Inr [OF d, of name] show ?thesis
    using t nm tne cl nd us
    by (cases task) (simp_all add: schedule_reminder_def Let_def task_func_def del: set_simps)
qed

lemma example_job_simps:
  "tags (example_job i name) = {name}" "job_id (example_job i name) = i"
  by (simp_all add: example_job_def)

lemma example_init_simps:
  "jobs example_init = []" "clock example_init = example_now" "is_running example_init = False"
  "threads example_init = []" "world example_init = 0"
  by (simp_all add: example_init_def init_def)

lemma schedule_example:
  assumes "clock s = example_now" and "name \<noteq> []"
  shows "schedule_reminder name ''5'' NoTask ''hours'' (s::nat state) =
     (Inr (example_job (fresh_id (jobs s)) name),
      s\<lparr>jobs := jobs s @ [example_job (fresh_id (jobs s)) name]\<rparr>)"
proof -
  have "unit_us ''hours'' = Some 3600000000" by (simp add: unit_us_def)
  from schedule_interval_ok [OF py_int_5 _ this, of s name NoTask]
  show ?thesis using assms
    by (simp add: example_now_def datetime_max_def us_per_day_def example_job_def task_func_def)
qed

lemma example_registry_reached:
  "snd (schedule_reminder ''a'' ''5'' NoTask ''hours''
     (snd (schedule_reminder ''b'' ''5'' NoTask ''hours''
       (snd (schedule_reminder ''a'' ''5'' NoTask ''hours'' example_init))))) = example_registry"
  by (simp add: schedule_example example_init_simps example_job_simps fresh_id_def
      example_registry_def numeral_2_eq_2 numeral_3_eq_3)

lemma jobs_clear: "jobs (clear (Some t) s) = filter (\<lambda>j. t \<notin> tags j) (jobs s)"
  by (simp add: clear_def)

lemma length_filter_less_iff:
  "length (filter P xs) < length xs \<longleftrightarrow> (\<exists>x\<in>set xs. \<not> P x)"
proof
  assume "length (filter P xs) < length xs"
  then have "filter P xs \<noteq> xs" by auto
  then show "\<exists>x\<in>set xs. \<not> P x" by (simp add: filter_id_conv)
next
  assume "\<exists>x\<in>set xs. \<not> P x"
  then show "length (filter P xs) < length xs" by (auto intro: length_filter_less)
qed

lemma remove_task_eq:
  "remove_task name s =
     ((\<exists>j\<in>set (jobs s). name \<in> tags j), s\<lparr>jobs := filter (\<lambda>j. name \<notin> tags j) (jobs s)\<rparr>)"
  by (simp add: remove_task_def Let_def clear_def length_filter_less_iff)

lemma py_int_1: "py_int ''1'' = Some 1"
  by (simp add: py_int_def ascii_spaces_def strip_def py_isspace_def digit_of_def digits_value_def
      int_max_str_digits_def)

lemma example_running_reached:
  "map_option (thread_step 1)
     (run 0 True 60 (snd (schedule_reminder ''bad'' ''1'' (Callable always_raises) ''seconds''
        example_init))) = Some example_running"
proof -
  have u: "unit_us ''seconds'' = Some 1000000" by (simp add: unit_us_def)
  have "schedule_reminder ''bad'' ''1'' (Callable always_raises) ''seconds'' example_init =
     (Inr failing_job, example_init\<lparr>jobs := [failing_job]\<rparr>)"
    using schedule_interval_ok [OF py_int_1 _ u, of example_init "''bad''" "Callable always_raises"]
    by (simp add: example_init_simps example_now_def datetime_max_def us_per_day_def
        failing_job_def task_func_def fresh_id_def)
  then show ?thesis
    by (simp add: run_def Let_def example_init_def init_def fresh_tid_def thread_step_def
        loop_body_def run_pending_def should_run_def failing_job_def sleep_def
        us_per_second_def example_running_def)
qed

lemma hhmm_bound: "(u::int) \<le> 23 \<Longrightarrow> v \<le> 59 \<Longrightarrow> u * 3600 + v * 60 < 86400"
  by linarith

lemma digit_of_newline: "digit_of (CHR 0x0A) = None"
  by (simp add: digit_of_def)

lemma valid_hhmm_at_day:
  assumes "valid_hhmm t"
  shows "\<exists>at. at_day t = Inr at \<and> 0 \<le> at \<and> at < us_per_day"
proof -
  from assms obtain h1 h2 m1 m2 a b x y where
    t: "t = [h1, h2, CHR '':'', m1, m2]"
    and d: "digit_of h1 = Some a" "digit_of h2 = Some b" "digit_of m1 = Some x" "digit_of m2 = Some y"
    and r: "10 * a + b \<le> 23" "10 * x + y \<le> 59"
    by (auto simp: valid_hhmm_def split: list.splits option.splits)
  have nl: "m2 \<noteq> CHR 0x0A" using d(4) digit_of_newline by auto
  have h: "two_digits 2 h1 h2 = Some (10 * a + b)" using d r by (simp add: two_digits_def)
  have m: "two_digits 5 m1 m2 = Some (10 * x + y)" using d r by (simp add: two_digits_def)
  have v: "at_day t = Inr ((int (10 * a + b) * 3600 + int (10 * x + y) * 60) * us_per_second)"
    using nl h m r unfolding t at_day_def by simp
  have "int (10 * a + b) \<le> 23" and "int (10 * x + y) \<le> 59" using r by linarith+
  then have "int (10 * a + b) * 3600 + int (10 * x + y) * 60 < 86400" by (rule hhmm_bound)
  then have "(int (10 * a + b) * 3600 + int (10 * x + y) * 60) * us_per_second < us_per_day"
    by (simp add: us_per_second_def us_per_day_def)
  moreover have "0 \<le> (int (10 * a + b) * 3600 + int (10 * x + y) * 60) * us_per_second"
    by (simp add: us_per_second_def)
  ultimately show ?thesis using v by blast
qed

lemma daily_next_run:
  assumes at: "0 \<le> at" "at < us_per_day" and c: "0 \<le> now" and r: "now + us_per_day \<le> datetime_max"
    and j: "unit j = ''days''" "interval j = 1" "at_time j = Some at" "last_run j = None"
  shows "\<exists>j'. schedule_next_run now j = Inr j' \<and> now < next_run j'"
proof -
  have u: "unit_us ''days'' = Some us_per_day" by (simp add: unit_us_def us_per_day_def)
  have "0 \<le> 1 * us_per_day" by (simp add: us_per_day_def)
  moreover have "1 * us_per_day \<le> datetime_max" using c r by simp
  ultimately have td: "timedelta us_per_day 1 = Inr us_per_day"
    using timedelta_ok [of 1 us_per_day] by simp
  have ad: "dt_add now us_per_day = Inr (now + us_per_day)"
    using c r by (simp add: dt_add_def us_per_day_def)
  have ds: "day_start (now + us_per_day) = now + us_per_day - now mod us_per_day"
    by (simp add: day_start_def)
  have m: "0 \<le> now mod us_per_day" "now mod us_per_day < us_per_day"
    by (simp_all add: us_per_day_def)
  show ?thesis
  proof (cases "time_of_day now < at")
    case True
    then have "schedule_next_run now j = Inr (j\<lparr>next_run := now - now mod us_per_day + at\<rparr>)"
      using j u td ad ds by (simp add: schedule_next_run_def Let_def)
    moreover have "now < now - now mod us_per_day + at"
      using True by (simp add: time_of_day_def)
    ultimately show ?thesis by simp
  next
    case False
    then have "schedule_next_run now j = Inr (j\<lparr>next_run := now + us_per_day - now mod us_per_day + at\<rparr>)"
      using j u td ad ds by (simp add: schedule_next_run_def Let_def)
    moreover have "now < now + us_per_day - now mod us_per_day + at"
      using m at by linarith
    ultimately show ?thesis by simp
  qed
qed

lemma next_run_tag: "tag t j s = (j', s') \<Longrightarrow> next_run j' = next_run j"
  by (auto simp: tag_def)

lemma py_int_huge: "py_int ''1000000000000'' = Some 1000000000000"
  by (simp add: py_int_def ascii_spaces_def strip_def py_isspace_def digit_of_def digits_value_def
      int_max_str_digits_def)




lemma threads_run_job: "threads (snd (run_job j s)) = threads s"
  by (simp add: run_job_def Let_def split_beta split: sum.splits)

lemma threads_run_jobs: "threads (snd (run_jobs js s)) = threads s"
proof (induction js arbitrary: s)
  case Nil
  then show ?case by simp
next
  case (Cons k ks)
  obtain r s1 where k: "run_job k s = (r, s1)" by (cases "run_job k s")
  then have "threads s1 = threads s" using threads_run_job [of k s] by simp
  with Cons.IH [of s1] k show ?case by (cases r) simp_all
qed


lemma do_job_with_classic:
  "do_job_with (\<lambda>now j. Some (schedule_next_run now j)) f j s = Some (do_job f j s)"
  by (simp add: do_job_with_def do_job_def split: sum.splits)

lemma schedule_reminder_with_classic:
  "schedule_reminder_with (\<lambda>now j. Some (schedule_next_run now j))
     task_name trigger_time task unit_name s =
   Some (schedule_reminder task_name trigger_time task unit_name s)"
proof (cases "task_name = [] \<or> trigger_time = [] \<or>
    unit_name \<notin> set [''days'', ''hours'', ''minutes'', ''seconds''] \<or> task = NotCallable")
  case True
  then show ?thesis
    by (auto simp: schedule_reminder_with_def schedule_reminder_def)
next
  case False
  let ?f = "case task of Callable g \<Rightarrow> g | _ \<Rightarrow> default_task"
  let ?r = "if unit_name = ''days''
            then (case at_day trigger_time of
                    Inl e \<Rightarrow> (Inl e, s)
                  | Inr at \<Rightarrow> do_job ?f (every 1 ''days'' (Some at) s) s)
            else (case py_int trigger_time of
                    None \<Rightarrow> (Inl PyValueError, s)
                  | Some n \<Rightarrow> do_job ?f (every n unit_name None s) s)"
  have r: "(if unit_name = ''days''
            then (case at_day trigger_time of
                    Inl e \<Rightarrow> Some (Inl e, s)
                  | Inr at \<Rightarrow> do_job_with (\<lambda>now j. Some (schedule_next_run now j)) ?f
                       (every 1 ''days'' (Some at) s) s)
            else (case py_int trigger_time of
                    None \<Rightarrow> Some (Inl PyValueError, s)
                  | Some n \<Rightarrow> do_job_with (\<lambda>now j. Some (schedule_next_run now j)) ?f
                       (every n unit_name None s) s)) = Some ?r"
    by (simp add: do_job_with_classic split: sum.splits option.splits)
  obtain x s1 where x: "?r = (x, s1)" by (cases ?r)
  have w: "schedule_reminder_with (\<lambda>now j. Some (schedule_next_run now j))
     task_name trigger_time task unit_name s =
     (case Some ?r of
        None \<Rightarrow> None
      | Some (Inl e, s') \<Rightarrow>
          if e = PyValueError
          then Some (Inl (ValueError (InvalidTimeFormat trigger_time unit_name)), s')
          else Some (Inl (RuntimeError (ErrorSchedulingTask task_name e)), s')
      | Some (Inr job, s') \<Rightarrow>
          (case tag task_name job s' of (job', s'') \<Rightarrow> Some (Inr job', s'')))"
    using False unfolding schedule_reminder_with_def Let_def r [symmetric]
    by (cases task) simp_all
  have c: "schedule_reminder task_name trigger_time task unit_name s =
     (case ?r of
        (Inl e, s') \<Rightarrow>
          if e = PyValueError
          then (Inl (ValueError (InvalidTimeFormat trigger_time unit_name)), s')
          else (Inl (RuntimeError (ErrorSchedulingTask task_name e)), s')
      | (Inr job, s') \<Rightarrow>
          (case tag task_name job s' of (job', s'') \<Rightarrow> (Inr job', s'')))"
    using False unfolding schedule_reminder_def Let_def
    by (cases task) simp_all
  show ?thesis unfolding w c x
    by (cases x) (simp_all split: prod.splits)
qed

lemma advance_zero_aux:
  assumes "advance_next_run now period nr = Some y"
  shows "\<not> (period = 0 \<and> 0 \<le> nr \<and> nr \<le> now \<and> nr \<le> datetime_max)"
proof (rule advance_next_run.raw_induct
    [where P = "\<lambda>now period nr y. \<not> (period = 0 \<and> 0 \<le> nr \<and> nr \<le> now \<and> nr \<le> datetime_max)",
     OF _ assms])
  fix f :: "datetime \<Rightarrow> int \<Rightarrow> datetime \<Rightarrow> (pyexc + datetime) option"
  fix now period nr :: int
  fix y :: "pyexc + datetime"
  assume IH: "\<And>now period nr y. f now period nr = Some y \<Longrightarrow>
      \<not> (period = 0 \<and> 0 \<le> nr \<and> nr \<le> now \<and> nr \<le> datetime_max)"
    and eq: "(if nr \<le> now
      then (case dt_add nr period of Inl e \<Rightarrow> Some (Inl e) | Inr nr' \<Rightarrow> f now period nr')
      else Some (Inr nr)) = Some y"
  show "\<not> (period = 0 \<and> 0 \<le> nr \<and> nr \<le> now \<and> nr \<le> datetime_max)"
  proof
    assume a: "period = 0 \<and> 0 \<le> nr \<and> nr \<le> now \<and> nr \<le> datetime_max"
    with eq have "f now period nr = Some y" by (simp add: dt_add_def)
    from IH [OF this] a show False by simp
  qed
qed

lemma advance_zero:
  assumes "0 \<le> nr" "nr \<le> now" "nr \<le> datetime_max"
  shows "advance_next_run now 0 nr = None"
proof (cases "advance_next_run now 0 nr")
  case None
  then show ?thesis .
next
  case (Some y)
  from advance_zero_aux [OF Some] assms show ?thesis by simp
qed

lemma advance_negative:
  assumes "period < 0"
  shows "0 \<le> nr \<Longrightarrow> nr \<le> now \<Longrightarrow> advance_next_run now period nr = Some (Inl OverflowError)"
proof (induction "nat nr" arbitrary: nr rule: less_induct)
  case less
  show ?case
  proof (cases "nr + period < 0")
    case True
    then show ?thesis
      using less.prems by (subst advance_next_run.simps) (simp add: dt_add_def)
  next
    case False
    have m: "nat (nr + period) < nat nr" using assms False by linarith
    have r: "nr + period \<le> datetime_max \<or> datetime_max < nr + period" by linarith
    have "advance_next_run now period (nr + period) = Some (Inl OverflowError)"
      using less.hyps [OF m] False assms less.prems by simp
    then show ?thesis
      using less.prems False by (subst advance_next_run.simps) (simp add: dt_add_def)
  qed
qed

lemma advance_later: "now < nr \<Longrightarrow> advance_next_run now period nr = Some (Inr nr)"
  by (subst advance_next_run.simps) simp

lemma timedelta_signed:
  assumes "- datetime_max \<le> n * ul" and "n * ul \<le> datetime_max"
  shows "timedelta ul n = Inr (n * ul)"
proof -
  have "(- datetime_max) div us_per_day \<le> (n * ul) div us_per_day"
    using assms(1) by (intro zdiv_mono1) (simp_all add: us_per_day_def)
  moreover have "(n * ul) div us_per_day \<le> datetime_max div us_per_day"
    using assms(2) by (intro zdiv_mono1) (simp_all add: us_per_day_def)
  moreover have "datetime_max div us_per_day = 3652058"
    and "(- datetime_max) div us_per_day = - 3652059"
    by (simp_all add: datetime_max_def us_per_day_def)
  ultimately show ?thesis by (simp add: timedelta_def Let_def)
qed

lemma timedelta_Inl: "timedelta ul n = Inl e \<Longrightarrow> e = OverflowError"
  by (auto simp: timedelta_def Let_def split: if_splits)

lemma unit_us_pos: "unit_us u = Some ul \<Longrightarrow> 0 < ul"
  by (auto simp: unit_us_def split: if_splits)

lemma loop_zero:
  assumes "unit_us (unit j) = Some ul" and "interval j = 0" and "at_time j = None"
    and "0 \<le> now" and "now \<le> datetime_max"
  shows "schedule_next_run_loop now j = None"
proof -
  have "timedelta ul 0 = Inr 0" by (simp add: timedelta_def Let_def)
  moreover have "dt_add now 0 = Inr now" using assms(4,5) by (simp add: dt_add_def)
  moreover have "advance_next_run now 0 now = None" using assms(4,5) by (intro advance_zero) simp_all
  ultimately show ?thesis using assms(1-3) by (simp add: schedule_next_run_loop_def)
qed

lemma loop_negative:
  assumes ul: "unit_us (unit j) = Some ul" and n: "interval j < 0" and at: "at_time j = None"
    and c: "0 \<le> now"
  shows "schedule_next_run_loop now j = Some (Inl OverflowError)"
proof (cases "timedelta ul (interval j)")
  case (Inl e)
  with timedelta_Inl [OF Inl] ul at show ?thesis by (simp add: schedule_next_run_loop_def)
next
  case (Inr period)
  then have p: "period = interval j * ul"
    by (auto simp: timedelta_def Let_def split: if_splits)
  have "0 < ul" using ul by (rule unit_us_pos)
  with n have neg: "period < 0" unfolding p by (simp add: mult_neg_pos)
  have ne: "interval j \<noteq> 1" using n by simp
  show ?thesis
  proof (cases "dt_add now period")
    case (Inl e)
    then have "e = OverflowError" by (auto simp: dt_add_def split: if_splits)
    with Inl Inr ul at ne show ?thesis by (simp add: schedule_next_run_loop_def)
  next
    case (Inr nr)
    note nr = this
    then have "nr = now + period" "0 \<le> nr" by (auto simp: dt_add_def split: if_splits)
    with neg have "nr \<le> now" by simp
    from advance_negative [OF neg \<open>0 \<le> nr\<close> this]
    show ?thesis using \<open>timedelta ul (interval j) = Inr period\<close> nr ul at ne
      by (simp add: schedule_next_run_loop_def)
  qed
qed

lemma loop_positive:
  assumes at: "at_time j = None" and n: "1 \<le> interval j"
  shows "schedule_next_run_loop now j = Some (schedule_next_run now j)"
proof (cases "unit_us (unit j)")
  case None
  then show ?thesis by (simp add: schedule_next_run_loop_def schedule_next_run_def)
next
  case (Some ul)
  note ul = this
  show ?thesis
  proof (cases "timedelta ul (interval j)")
    case (Inl e)
    with ul at show ?thesis by (simp add: schedule_next_run_loop_def schedule_next_run_def)
  next
    case (Inr period)
    note td = this
    then have p: "period = interval j * ul"
      by (auto simp: timedelta_def Let_def split: if_splits)
    have "0 < ul" using ul by (rule unit_us_pos)
    with n have pos: "0 < period" unfolding p by simp
    show ?thesis
    proof (cases "dt_add now period")
      case (Inl e)
      then have "advance_next_run now period now = Some (Inl e)"
        by (subst advance_next_run.simps) simp
      with Inl td ul at show ?thesis
        by (simp add: schedule_next_run_loop_def schedule_next_run_def)
    next
      case (Inr nr)
      then have "now < nr" using pos by (auto simp: dt_add_def split: if_splits)
      then have l: "advance_next_run now period nr = Some (Inr nr)" by (rule advance_later)
      have "advance_next_run now period now = Some (Inr nr)"
        using Inr l by (subst advance_next_run.simps) simp
      with l Inr td ul at show ?thesis
        by (simp add: schedule_next_run_loop_def schedule_next_run_def)
    qed
  qed
qed

lemma py_int_minus_5: "py_int ''-5'' = Some (- 5)"
  by (simp add: py_int_def ascii_spaces_def strip_def py_isspace_def digit_of_def digits_value_def
      int_max_str_digits_def)

lemma py_int_nbsp: "py_int [CHR 0xA0, CHR ''5''] = Some 5"
  by (simp add: py_int_def ascii_spaces_def strip_def py_isspace_def digit_of_def digits_value_def
      int_max_str_digits_def)

lemma py_int_nonempty: "py_int t = Some n \<Longrightarrow> t \<noteq> []"
  by (auto simp: py_int_def ascii_spaces_def strip_def)

lemma interval_unit_us:
  "unit_name \<in> {''hours'', ''minutes'', ''seconds''} \<Longrightarrow> \<exists>ul. unit_us unit_name = Some ul"
  by (auto simp: unit_us_def)

lemma schedule_with_not_int:
  assumes u: "unit_name \<in> {''hours'', ''minutes'', ''seconds''}" and cl: "task \<noteq> NotCallable"
    and t: "py_int trigger_time = None"
  shows "\<exists>m. schedule_reminder_with lib task_name trigger_time task unit_name s =
           Some (Inl (ValueError m), s)"
  using u cl t by (cases task) (auto simp: schedule_reminder_with_def Let_def)

lemma schedule_with_loop_zero:
  assumes u: "unit_name \<in> {''hours'', ''minutes'', ''seconds''}" and cl: "task \<noteq> NotCallable"
    and nm: "task_name \<noteq> []" and t: "py_int trigger_time = Some 0"
    and c: "0 \<le> clock s" "clock s \<le> datetime_max"
  shows "schedule_reminder_with schedule_next_run_loop task_name trigger_time task unit_name s =
           None"
proof -
  from interval_unit_us [OF u] obtain ul where ul: "unit_us unit_name = Some ul" ..
  have tne: "trigger_time \<noteq> []" using t by (rule py_int_nonempty)
  have d: "do_job_with schedule_next_run_loop f (every 0 unit_name None s) s = None" for f
    using loop_zero [of "(every 0 unit_name None s)\<lparr>job_func := f\<rparr>" ul "clock s"] ul c
    by (simp add: do_job_with_def every_simps)
  have nd: "unit_name \<noteq> ''days''" using u by auto
  have us: "unit_name \<in> set [''days'', ''hours'', ''minutes'', ''seconds'']" using u by auto
  show ?thesis using nm tne nd us cl t
    by (cases task) (simp_all add: schedule_reminder_with_def Let_def d del: set_simps)
qed

lemma schedule_with_loop_negative:
  assumes u: "unit_name \<in> {''hours'', ''minutes'', ''seconds''}" and cl: "task \<noteq> NotCallable"
    and nm: "task_name \<noteq> []" and t: "py_int trigger_time = Some n" and n: "n < 0"
    and c: "0 \<le> clock s"
  shows "schedule_reminder_with schedule_next_run_loop task_name trigger_time task unit_name s =
           Some (Inl (RuntimeError (ErrorSchedulingTask task_name OverflowError)), s)"
proof -
  from interval_unit_us [OF u] obtain ul where ul: "unit_us unit_name = Some ul" ..
  have tne: "trigger_time \<noteq> []" using t by (rule py_int_nonempty)
  have d: "do_job_with schedule_next_run_loop f (every n unit_name None s) s =
      Some (Inl OverflowError, s)" for f
    using loop_negative [of "(every n unit_name None s)\<lparr>job_func := f\<rparr>" ul "clock s"] ul c n
    by (simp add: do_job_with_def every_simps)
  have nd: "unit_name \<noteq> ''days''" using u by auto
  have us: "unit_name \<in> set [''days'', ''hours'', ''minutes'', ''seconds'']" using u by auto
  show ?thesis using nm tne nd us cl t
    by (cases task) (simp_all add: schedule_reminder_with_def Let_def d del: set_simps)
qed

lemma schedule_interval_any:
  assumes t: "py_int t = Some n" and u: "u \<in> {''hours'', ''minutes'', ''seconds''}"
    and ul: "unit_us u = Some ul" and c: "0 \<le> clock s" "clock s \<le> datetime_max"
    and r: "0 \<le> clock s + n * ul" "clock s + n * ul \<le> datetime_max"
    and nm: "name \<noteq> []" and cl: "task \<noteq> NotCallable"
  shows "schedule_reminder name t task u s =
    (Inr \<lparr>job_id = fresh_id (jobs s), interval = n, unit = u, at_time = None,
          last_run = None, next_run = clock s + n * ul, tags = {name},
          job_func = task_func task\<rparr>,
     s\<lparr>jobs := jobs s @
        [\<lparr>job_id = fresh_id (jobs s), interval = n, unit = u, at_time = None,
          last_run = None, next_run = clock s + n * ul, tags = {name},
          job_func = task_func task\<rparr>]\<rparr>)"
proof -
  have tne: "t \<noteq> []" using t by (rule py_int_nonempty)
  have "- datetime_max \<le> n * ul" "n * ul \<le> datetime_max" using c r by linarith+
  then have td: "timedelta ul n = Inr (n * ul)" by (rule timedelta_signed)
  have ad: "dt_add (clock s) (n * ul) = Inr (clock s + n * ul)"
    using r by (simp add: dt_add_def)
  have d: "do_job (task_func task) (every n u None s) s =
     (Inr \<lparr>job_id = fresh_id (jobs s), interval = n, unit = u, at_time = None,
          last_run = None, next_run = clock s + n * ul, tags = {},
          job_func = task_func task\<rparr>,
      s\<lparr>jobs := jobs s @ [\<lparr>job_id = fresh_id (jobs s), interval = n, unit = u, at_time = None,
          last_run = None, next_run = clock s + n * ul, tags = {},
          job_func = task_func task\<rparr>]\<rparr>)"
    by (simp add: do_job_def schedule_next_run_def ul td ad every_def)
  have nd: "u \<noteq> ''days''" using u by auto
  have us: "u \<in> set [''days'', ''hours'', ''minutes'', ''seconds'']" using u by auto
  from d do_every_Inr [OF d, of name] show ?thesis
    using t nm tne cl nd us
    by (cases task) (simp_all add: schedule_reminder_def Let_def task_func_def del: set_simps)
qed

lemma example_clock:
  "clock example_init = example_now" "clock example_registry = example_now"
  "0 \<le> example_now" "example_now \<le> datetime_max"
  by (simp_all add: example_registry_def example_init_simps example_now_def datetime_max_def
      us_per_day_def)

subsection \<open>The claims\<close>




text \<open>C2, as stated, fails, whichever release of the library is installed: \<^verbatim>\<open>"0"\<close> and
  \<^verbatim>\<open>"-5"\<close> are integers for \<^verbatim>\<open>int\<close>, and no \<^verbatim>\<open>ValueError\<close> is raised. With the next run of the
  releases up to 1.2.1 the job of interval 0 is registered. With that of release 1.2.2 the
  registration of \<^verbatim>\<open>"0"\<close> never returns, and that of \<^verbatim>\<open>"-5"\<close> fails with \<^verbatim>\<open>RuntimeError\<close>.\<close>

theorem non_positive_interval_counterexample:
  "py_int ''0'' = Some 0 \<and> py_int ''-5'' = Some (- 5) \<and>
   \<not> isl (fst (schedule_reminder ''r'' ''0'' NoTask ''hours'' example_init)) \<and>
   length (jobs (snd (schedule_reminder ''r'' ''0'' NoTask ''hours'' example_init))) = 1 \<and>
   schedule_reminder_with schedule_next_run_loop ''r'' ''0'' NoTask ''hours'' example_init =
     None \<and>
   schedule_reminder_with schedule_next_run_loop ''r'' ''-5'' NoTask ''hours'' example_init =
     Some (Inl (RuntimeError (ErrorSchedulingTask ''r'' OverflowError)), example_init)"
proof -
  have u: "unit_us ''hours'' = Some 3600000000" by (simp add: unit_us_def)
  have h: "''hours'' \<in> {''hours'', ''minutes'', ''seconds''}" by simp
  have c: "NoTask \<noteq> (NotCallable :: nat task_arg)" and r: "''r'' \<noteq> []" by simp_all
  from schedule_interval_ok [OF py_int_0 _ u, of example_init "''r''" NoTask]
  have "\<not> isl (fst (schedule_reminder ''r'' ''0'' NoTask ''hours'' example_init))"
    and "length (jobs (snd (schedule_reminder ''r'' ''0'' NoTask ''hours'' example_init))) = 1"
    by (simp_all add: example_init_simps example_now_def datetime_max_def us_per_day_def)
  moreover from schedule_with_loop_zero [OF h c r py_int_0, of example_init]
  have "schedule_reminder_with schedule_next_run_loop ''r'' ''0'' NoTask ''hours'' example_init =
     None" by (simp add: example_clock)
  moreover from schedule_with_loop_negative [OF h c r py_int_minus_5, of example_init]
  have "schedule_reminder_with schedule_next_run_loop ''r'' ''-5'' NoTask ''hours'' example_init =
     Some (Inl (RuntimeError (ErrorSchedulingTask ''r'' OverflowError)), example_init)"
    by (simp add: example_clock)
  ultimately show ?thesis by (simp add: py_int_0 py_int_minus_5)
qed

text \<open>C2, amended: for the units hours, minutes and seconds and a task that is \<^verbatim>\<open>None\<close> or
  callable, \<^verbatim>\<open>schedule_reminder\<close> tests the trigger time by \<^verbatim>\<open>int\<close> alone. A trigger time that
  \<^verbatim>\<open>int\<close> does not read as an integer raises \<^verbatim>\<open>ValueError\<close> and leaves the scheduler as it was,
  whatever the library does. An integer \<open>n\<close> that is not positive goes to the library as it is,
  under a non-empty name: with the next run of the releases up to 1.2.1 the job is registered,
  with the interval \<open>n\<close> and a next run \<open>n\<close> units from now, which is not after now (as long as
  that time is not before the first \<^verbatim>\<open>datetime\<close>); with that of
  release 1.2.2 the call never returns for 0, and for a negative \<open>n\<close> it raises \<^verbatim>\<open>RuntimeError\<close>
  (from the \<^verbatim>\<open>OverflowError\<close> of the library) and leaves the scheduler as it was.\<close>

theorem trigger_time_validation:
  assumes u: "unit_name \<in> {''hours'', ''minutes'', ''seconds''}" and cl: "task \<noteq> NotCallable"
  shows
    "(py_int trigger_time = None \<longrightarrow>
        (\<exists>m. schedule_reminder_with lib task_name trigger_time task unit_name s =
                Some (Inl (ValueError m), s) \<and>
              schedule_reminder task_name trigger_time task unit_name s =
                (Inl (ValueError m), s))) \<and>
     (task_name \<noteq> [] \<and> py_int trigger_time = Some n \<and> n \<le> 0 \<and>
      unit_us unit_name = Some ul \<and> 0 \<le> clock s + n * ul \<and> clock s \<le> datetime_max \<longrightarrow>
        (\<exists>job. schedule_reminder task_name trigger_time task unit_name s =
                  (Inr job, s\<lparr>jobs := jobs s @ [job]\<rparr>) \<and>
                interval job = n \<and> next_run job = clock s + n * ul)) \<and>
     (task_name \<noteq> [] \<and> py_int trigger_time = Some 0 \<and> 0 \<le> clock s \<and>
      clock s \<le> datetime_max \<longrightarrow>
        schedule_reminder_with schedule_next_run_loop task_name trigger_time task unit_name s =
          None) \<and>
     (task_name \<noteq> [] \<and> py_int trigger_time = Some n \<and> n < 0 \<and> 0 \<le> clock s \<longrightarrow>
        schedule_reminder_with schedule_next_run_loop task_name trigger_time task unit_name s =
          Some (Inl (RuntimeError (ErrorSchedulingTask task_name OverflowError)), s))"
proof (intro conjI impI)
  assume t: "py_int trigger_time = None"
  from schedule_with_not_int [OF u cl t] obtain m where
    m: "schedule_reminder_with (\<lambda>now j. Some (schedule_next_run now j))
          task_name trigger_time task unit_name s = Some (Inl (ValueError m), s)" by blast
  then have c: "schedule_reminder task_name trigger_time task unit_name s = (Inl (ValueError m), s)"
    by (simp add: schedule_reminder_with_classic)
  from schedule_with_not_int [OF u cl t] obtain m' where
    m': "schedule_reminder_with lib task_name trigger_time task unit_name s =
          Some (Inl (ValueError m'), s)" by blast
  have "m' = m" using m m' u cl t
    by (cases task) (auto simp: schedule_reminder_with_def Let_def split: if_splits)
  with m' c show "\<exists>m. schedule_reminder_with lib task_name trigger_time task unit_name s =
                Some (Inl (ValueError m), s) \<and>
              schedule_reminder task_name trigger_time task unit_name s =
                (Inl (ValueError m), s)" by blast
next
  assume a: "task_name \<noteq> [] \<and> py_int trigger_time = Some n \<and> n \<le> 0 \<and>
      unit_us unit_name = Some ul \<and> 0 \<le> clock s + n * ul \<and> clock s \<le> datetime_max"
  then have "0 < ul" by (auto dest: unit_us_pos)
  with a have "n * ul \<le> 0" by (simp add: mult_nonpos_nonneg)
  with a have c: "0 \<le> clock s" "clock s + n * ul \<le> datetime_max" by linarith+
  from a c schedule_interval_any [of trigger_time n unit_name ul s task_name task] u cl
  show "\<exists>job. schedule_reminder task_name trigger_time task unit_name s =
                  (Inr job, s\<lparr>jobs := jobs s @ [job]\<rparr>) \<and>
                interval job = n \<and> next_run job = clock s + n * ul"
    by simp
next
  assume "task_name \<noteq> [] \<and> py_int trigger_time = Some 0 \<and> 0 \<le> clock s \<and>
      clock s \<le> datetime_max"
  then show "schedule_reminder_with schedule_next_run_loop task_name trigger_time task unit_name s =
          None"
    using schedule_with_loop_zero [OF u cl] by blast
next
  assume "task_name \<noteq> [] \<and> py_int trigger_time = Some n \<and> n < 0 \<and> 0 \<le> clock s"
  then show "schedule_reminder_with schedule_next_run_loop task_name trigger_time task unit_name s =
          Some (Inl (RuntimeError (ErrorSchedulingTask task_name OverflowError)), s)"
    using schedule_with_loop_negative [OF u cl] by blast
qed

theorem trigger_time_validation_witness:
  "(\<exists>m. schedule_reminder_with schedule_next_run_loop ''r'' ''soon'' NoTask ''minutes''
          example_registry = Some (Inl (ValueError m), example_registry) \<and>
        schedule_reminder ''r'' ''soon'' NoTask ''minutes'' example_registry =
          (Inl (ValueError m), example_registry)) \<and>
   (\<exists>job. schedule_reminder ''r'' ''0'' NoTask ''minutes'' example_registry =
            (Inr job, example_registry\<lparr>jobs := jobs example_registry @ [job]\<rparr>) \<and>
          interval job = 0 \<and> next_run job = example_now) \<and>
   schedule_reminder_with schedule_next_run_loop ''r'' ''0'' NoTask ''minutes''
     example_registry = None \<and>
   schedule_reminder_with schedule_next_run_loop ''r'' ''-5'' NoTask ''minutes''
     example_registry =
       Some (Inl (RuntimeError (ErrorSchedulingTask ''r'' OverflowError)), example_registry)"
proof -
  have u: "''minutes'' \<in> {''hours'', ''minutes'', ''seconds''}" by simp
  have c: "NoTask \<noteq> (NotCallable :: nat task_arg)" by simp
  have ul: "unit_us ''minutes'' = Some 60000000" by (simp add: unit_us_def)
  note a = trigger_time_validation [OF u c, of "''soon''" schedule_next_run_loop "''r''"
      example_registry 0 60000000]
  note b = trigger_time_validation [OF u c, of "''0''" schedule_next_run_loop "''r''"
      example_registry 0 60000000]
  note d = trigger_time_validation [OF u c, of "''-5''" schedule_next_run_loop "''r''"
      example_registry "- 5" 60000000]
  from a have 1: "\<exists>m. schedule_reminder_with schedule_next_run_loop ''r'' ''soon'' NoTask ''minutes''
          example_registry = Some (Inl (ValueError m), example_registry) \<and>
        schedule_reminder ''r'' ''soon'' NoTask ''minutes'' example_registry =
          (Inl (ValueError m), example_registry)"
    by (simp add: py_int_x)
  from b have 2: "\<exists>job. schedule_reminder ''r'' ''0'' NoTask ''minutes'' example_registry =
            (Inr job, example_registry\<lparr>jobs := jobs example_registry @ [job]\<rparr>) \<and>
          interval job = 0 \<and> next_run job = example_now"
    by (simp add: py_int_0 ul example_clock)
  from b have 3: "schedule_reminder_with schedule_next_run_loop ''r'' ''0'' NoTask ''minutes''
     example_registry = None"
    by (simp add: py_int_0 example_clock)
  from d have 4: "schedule_reminder_with schedule_next_run_loop ''r'' ''-5'' NoTask ''minutes''
     example_registry =
       Some (Inl (RuntimeError (ErrorSchedulingTask ''r'' OverflowError)), example_registry)"
    by (simp add: py_int_minus_5 example_clock)
  from 1 2 3 4 show ?thesis by blast
qed

text \<open>C3, as stated, fails: two registrations under the name \<^verbatim>\<open>a\<close> leave two jobs with that name.\<close>

theorem duplicate_name_counterexample:
  "length (filter (\<lambda>j. ''a'' \<in> tags j)
     (jobs (snd (schedule_reminder ''a'' ''5'' NoTask ''hours''
       (snd (schedule_reminder ''a'' ''5'' NoTask ''hours'' example_init)))))) = 2"
  by (simp add: schedule_example example_init_simps example_job_simps)

text \<open>C3, amended: a successful registration appends one new job, tagged with the name, after the
  jobs that are there and keeps these, so the number of jobs of that name grows by one; names
  are not unique.\<close>

theorem registration_appends:
  "schedule_reminder name trigger_time task unit_name s = (Inr job, s') \<Longrightarrow>
     jobs s' = jobs s @ [job] \<and> tags job = {name} \<and>
     length (filter (\<lambda>j. name \<in> tags j) (jobs s')) =
       Suc (length (filter (\<lambda>j. name \<in> tags j) (jobs s)))"
  by (drule schedule_reminder_Inr) simp

theorem registration_appends_witness:
  "jobs (snd (schedule_reminder ''a'' ''5'' NoTask ''hours'' example_registry)) =
     jobs example_registry @ [example_job (fresh_id (jobs example_registry)) ''a''] \<and>
   length (filter (\<lambda>j. ''a'' \<in> tags j)
     (jobs (snd (schedule_reminder ''a'' ''5'' NoTask ''hours'' example_registry)))) = 3"
proof -
  have c: "clock example_registry = example_now"
    by (simp add: example_registry_def example_init_simps)
  have r: "schedule_reminder ''a'' ''5'' NoTask ''hours'' example_registry =
      (Inr (example_job (fresh_id (jobs example_registry)) ''a''),
       snd (schedule_reminder ''a'' ''5'' NoTask ''hours'' example_registry))"
    by (simp add: schedule_example [OF c])
  have "length (filter (\<lambda>j. ''a'' \<in> tags j) (jobs example_registry)) = 2"
    by (simp add: example_registry_def example_job_simps)
  with registration_appends [OF r] show ?thesis by simp
qed

text \<open>C4: \<^verbatim>\<open>get_pending_tasks\<close> returns one element per job, but the element is the set of the
  job's tags, not the name: after the registration of \<^verbatim>\<open>a\<close> the result is the list of the one
  set \<^verbatim>\<open>{a}\<close>, which is not the list of the string \<^verbatim>\<open>a\<close>.\<close>

theorem get_pending_tasks_returns_sets:
  "get_pending_tasks (snd (schedule_reminder ''a'' ''5'' NoTask ''hours'' example_init)) =
     [PySet {''a''}] \<and>
   get_pending_tasks (snd (schedule_reminder ''a'' ''5'' NoTask ''hours'' example_init)) \<noteq>
     [PyStr ''a'']"
  by (simp add: schedule_example example_init_simps example_job_simps get_pending_tasks_def)

text \<open>C5, as stated, fails: \<^verbatim>\<open>"1000000000000"\<close> hours is a valid pair, but no \<^verbatim>\<open>timedelta\<close> is
  that long; the \<^verbatim>\<open>OverflowError\<close> reaches the general handler and the registration fails with
  \<^verbatim>\<open>RuntimeError\<close>.\<close>

theorem huge_interval_counterexample:
  "cadence_period ''hours'' ''1000000000000'' = Some 3600000000000000000000 \<and>
   schedule_reminder ''r'' ''1000000000000'' NoTask ''hours'' example_init =
     (Inl (RuntimeError (ErrorSchedulingTask ''r'' OverflowError)), example_init)"
  by (simp add: cadence_period_def py_int_huge unit_us_def schedule_reminder_def Let_def
      do_job_def schedule_next_run_def timedelta_def every_def us_per_day_def)

text \<open>C5, amended: for a valid pair whose period, added to the time of the registration, stays
  within \<^verbatim>\<open>datetime.max\<close>, a non-empty name and a task that is \<^verbatim>\<open>None\<close> or callable,
  \<^verbatim>\<open>schedule_reminder\<close> succeeds, the job is in the list, and its next run is strictly later
  than the time of the registration.\<close>

theorem valid_cadence_scheduled_in_future:
  assumes p: "cadence_period unit_name trigger_time = Some p"
    and nm: "task_name \<noteq> []" and cl: "task \<noteq> NotCallable"
    and c: "0 \<le> clock s" and r: "clock s + p \<le> datetime_max"
  shows "\<exists>job s'. schedule_reminder task_name trigger_time task unit_name s = (Inr job, s') \<and>
           clock s < next_run job \<and> job \<in> set (jobs s')"
proof (cases "unit_name = ''days''")
  case True
  from p True have v: "valid_hhmm trigger_time" and pd: "p = us_per_day"
    by (auto simp: cadence_period_def split: if_splits)
  from valid_hhmm_at_day [OF v] obtain at where
    at: "at_day trigger_time = Inr at" "0 \<le> at" "at < us_per_day" by blast
  have tne: "trigger_time \<noteq> []" using v by (auto simp: valid_hhmm_def)
  let ?j = "(every 1 ''days'' (Some at) s)\<lparr>job_func := task_func task\<rparr>"
  from daily_next_run [OF at(2,3) c, of ?j] r pd
  obtain j' where j': "schedule_next_run (clock s) ?j = Inr j'" "clock s < next_run j'"
    by (auto simp: every_simps)
  have d: "do_job (task_func task) (every 1 ''days'' (Some at) s) s = (Inr j', s\<lparr>jobs := jobs s @ [j']\<rparr>)"
    using j'(1) by (simp add: do_job_def)
  from do_every_Inr [OF d, of task_name]
  have "schedule_reminder task_name trigger_time task unit_name s =
      (Inr (j'\<lparr>tags := {task_name}\<rparr>), s\<lparr>jobs := jobs s @ [j'\<lparr>tags := {task_name}\<rparr>]\<rparr>)"
    using True nm tne cl at(1) d
    by (cases task) (simp_all add: schedule_reminder_def Let_def task_func_def)
  then show ?thesis using j'(2) by simp
next
  case False
  from p False obtain n ul where
    u: "unit_name \<in> {''hours'', ''minutes'', ''seconds''}"
    and n: "py_int trigger_time = Some n" "0 < n"
    and ul: "unit_us unit_name = Some ul" and pn: "p = n * ul"
    by (auto simp: cadence_period_def split: if_splits option.splits)
  have "0 < ul" using ul by (auto simp: unit_us_def split: if_splits)
  with n(2) have pos: "0 < n * ul" by simp
  from schedule_interval_ok [OF n(1) u ul _ c _ nm cl] pos r pn
  show ?thesis by simp
qed

theorem valid_cadence_scheduled_in_future_witness:
  "(\<exists>job s'. schedule_reminder ''digest'' ''08:00'' NoTask ''days'' example_registry =
       (Inr job, s') \<and> example_now < next_run job) \<and>
   (\<exists>job s'. schedule_reminder ''tick'' ''5'' NoTask ''seconds'' example_registry =
       (Inr job, s') \<and> example_now < next_run job)"
proof -
  have d: "cadence_period ''days'' ''08:00'' = Some us_per_day"
    by (simp add: cadence_period_def valid_hhmm_def digit_of_def)
  have t: "cadence_period ''seconds'' ''5'' = Some 5000000"
    by (simp add: cadence_period_def py_int_5 unit_us_def)
  have c: "clock example_registry = example_now" "0 \<le> clock example_registry"
    "clock example_registry + us_per_day \<le> datetime_max"
    "clock example_registry + 5000000 \<le> datetime_max"
    by (simp_all add: example_registry_def example_init_simps example_now_def
        datetime_max_def us_per_day_def)
  have "''digest'' \<noteq> []" "''tick'' \<noteq> []" "NoTask \<noteq> (NotCallable :: nat task_arg)"
    by simp_all
  from valid_cadence_scheduled_in_future [OF d this(1,3) c(2,3)]
    valid_cadence_scheduled_in_future [OF t this(2,3) c(2,4)]
  show ?thesis unfolding c(1) by blast
qed

text \<open>C6: a \<^verbatim>\<open>unit\<close> outside days, hours, minutes and seconds makes \<^verbatim>\<open>schedule_reminder\<close> raise
  \<^verbatim>\<open>ValueError\<close>, whatever the other arguments are, and the scheduler is as it was before the
  call.\<close>

theorem invalid_unit_rejected:
  "unit_name \<notin> {''days'', ''hours'', ''minutes'', ''seconds''} \<Longrightarrow>
     \<exists>m. schedule_reminder task_name trigger_time task unit_name s = (Inl (ValueError m), s)"
  by (simp add: schedule_reminder_def)

theorem invalid_unit_rejected_witness:
  "\<exists>m. schedule_reminder ''digest'' ''2'' NoTask ''weeks'' example_registry =
     (Inl (ValueError m), example_registry)"
proof -
  have "''weeks'' \<notin> {''days'', ''hours'', ''minutes'', ''seconds''}" by simp
  from invalid_unit_rejected [OF this, of "''digest''" "''2''" NoTask example_registry]
  show ?thesis by (auto simp: schedule_reminder_def)
qed

text \<open>C7: after a successful registration under \<open>name\<close> the name is listed; \<^verbatim>\<open>remove_task(name)\<close>
  then returns true and no element of \<^verbatim>\<open>get_pending_tasks()\<close> is the name or holds it. Removing
  a name that no job carries returns false and leaves the scheduler, and so the number of its
  jobs, unchanged.\<close>

theorem schedule_then_remove:
  "(schedule_reminder name trigger_time task unit_name s = (Inr job, s1) \<longrightarrow>
      PySet {name} \<in> set (get_pending_tasks s1) \<and>
      fst (remove_task name s1) \<and>
      (\<forall>v\<in>set (get_pending_tasks (snd (remove_task name s1))).
          v \<noteq> PyStr name \<and> (\<forall>ts. v = PySet ts \<longrightarrow> name \<notin> ts))) \<and>
   ((\<forall>j\<in>set (jobs s). name \<notin> tags j) \<longrightarrow>
      remove_task name s = (False, s) \<and>
      length (jobs (snd (remove_task name s))) = length (jobs s))"
proof (intro conjI impI)
  assume a: "schedule_reminder name trigger_time task unit_name s = (Inr job, s1)"
  from schedule_reminder_Inr [OF a]
  have j: "jobs s1 = jobs s @ [job]" and t: "tags job = {name}" by simp_all
  show "PySet {name} \<in> set (get_pending_tasks s1)"
    using j t by (simp add: get_pending_tasks_def)
  show "fst (remove_task name s1)"
    using j t by (simp add: remove_task_eq)
  show "\<forall>v\<in>set (get_pending_tasks (snd (remove_task name s1))).
          v \<noteq> PyStr name \<and> (\<forall>ts. v = PySet ts \<longrightarrow> name \<notin> ts)"
    by (auto simp: remove_task_eq get_pending_tasks_def)
next
  assume u: "\<forall>j\<in>set (jobs s). name \<notin> tags j"
  then have f: "filter (\<lambda>j. name \<notin> tags j) (jobs s) = jobs s" by simp
  show "remove_task name s = (False, s)"
    using u by (simp add: remove_task_eq f)
  then show "length (jobs (snd (remove_task name s))) = length (jobs s)" by simp
qed

theorem schedule_then_remove_witness:
  "PySet {''c''} \<in> set (get_pending_tasks
      (snd (schedule_reminder ''c'' ''5'' NoTask ''hours'' example_registry))) \<and>
   PySet {''c''} \<notin> set (get_pending_tasks (snd (remove_task ''c''
      (snd (schedule_reminder ''c'' ''5'' NoTask ''hours'' example_registry))))) \<and>
   remove_task ''c'' example_registry = (False, example_registry)"
proof -
  have c: "clock example_registry = example_now"
    by (simp add: example_registry_def example_init_simps)
  have r: "schedule_reminder ''c'' ''5'' NoTask ''hours'' example_registry =
      (Inr (example_job (fresh_id (jobs example_registry)) ''c''),
       snd (schedule_reminder ''c'' ''5'' NoTask ''hours'' example_registry))"
    by (simp add: schedule_example [OF c])
  have u: "\<forall>j\<in>set (jobs example_registry). ''c'' \<notin> tags j"
    by (simp add: example_registry_def example_job_simps)
  from schedule_then_remove [of "''c''" "''5''" NoTask "''hours''" example_registry
      "example_job (fresh_id (jobs example_registry)) ''c''"
      "snd (schedule_reminder ''c'' ''5'' NoTask ''hours'' example_registry)"] r u
  show ?thesis by auto
qed



text \<open>C9: \<^verbatim>\<open>stop\<close> on a scheduler that is not running changes nothing and raises nothing (the model
  of \<^verbatim>\<open>stop\<close> has no exception to return); after one call and after two calls \<open>is_running\<close> is
  false, and the second call changes nothing.\<close>

theorem stop_idempotent:
  "(\<not> is_running s \<longrightarrow> stop s = s) \<and> \<not> is_running (stop s) \<and>
   \<not> is_running (stop (stop s)) \<and> stop (stop s) = stop s"
  by (simp add: stop_def)

theorem stop_idempotent_witness:
  "stop example_registry = example_registry \<and>
   \<not> is_running (stop (example_registry\<lparr>is_running := True\<rparr>)) \<and>
   \<not> is_running (stop (stop (example_registry\<lparr>is_running := True\<rparr>)))"
  using stop_idempotent [of example_registry]
    stop_idempotent [of "example_registry\<lparr>is_running := True\<rparr>"]
  by (simp add: example_registry_def example_init_simps)

text \<open>C10: \<^verbatim>\<open>remove_task(name)\<close> keeps exactly the jobs that do not carry the tag \<open>name\<close>, so one call
  removes every job registered under that name, and it returns true if and only if some job
  carried the tag before the call.\<close>

theorem remove_task_removes_all:
  "remove_task name s = (r, s') \<Longrightarrow>
     jobs s' = filter (\<lambda>j. name \<notin> tags j) (jobs s) \<and>
     (\<forall>j\<in>set (jobs s'). name \<notin> tags j) \<and>
     (r \<longleftrightarrow> (\<exists>j\<in>set (jobs s). name \<in> tags j))"
  by (auto simp: remove_task_eq)

theorem remove_task_removes_all_witness:
  "length (filter (\<lambda>j. ''a'' \<in> tags j) (jobs example_registry)) = 2 \<and>
   fst (remove_task ''a'' example_registry) \<and>
   jobs (snd (remove_task ''a'' example_registry)) = [example_job 2 ''b''] \<and>
   \<not> fst (remove_task ''c'' example_registry)"
proof -
  have a: "remove_task ''a'' example_registry =
      (fst (remove_task ''a'' example_registry), snd (remove_task ''a'' example_registry))"
    by simp
  have c: "remove_task ''c'' example_registry =
      (fst (remove_task ''c'' example_registry), snd (remove_task ''c'' example_registry))"
    by simp
  from remove_task_removes_all [OF a] remove_task_removes_all [OF c]
  show ?thesis by (simp add: example_registry_def example_job_simps)
qed

end
